theory Spec2Isabelle
  imports Main "HOL-Library.Word"
begin

section \<open>Go values of the program (main.go, lines 15-35)\<close>

text \<open>
  A Go \<^verbatim>\<open>string\<close> is a sequence of bytes; HOL's \<^typ>\<open>string\<close> is a list of 8-bit
  characters, so the two coincide.  Go's \<^verbatim>\<open>int\<close> is a 64-bit signed integer, read
  with \<^const>\<open>sint\<close>.

  \<^verbatim>\<open>Student.Info\<close> is a pointer \<^verbatim>\<open>*StudentDetails\<close>: \<open>None\<close> is \<^verbatim>\<open>nil\<close>,
  \<open>Some a\<close> is the address of a cell of the Go heap.  The heap is a list of cells,
  an address is an index into it, and allocation appends a cell.
\<close>

type_synonym addr = nat

record StudentDetails =
  FirstName :: string
  LastName :: string
  Major :: string

record Student =
  Info :: "addr option"
  Rank :: "64 word"

type_synonym memory = "StudentDetails list"

definition alloc :: "StudentDetails \<Rightarrow> memory \<Rightarrow> addr \<times> memory" where
  "alloc d m = (length m, m @ [d])"

text \<open>What a pointer refers to; \<open>None\<close> for \<^verbatim>\<open>nil\<close> (and for an address outside the heap,
  which a Go program cannot hold).\<close>

definition deref :: "memory \<Rightarrow> addr option \<Rightarrow> StudentDetails option" where
  "deref m p = (case p of None \<Rightarrow> None
                | Some a \<Rightarrow> if a < length m then Some (m ! a) else None)"

text \<open>The values that travel through \<^verbatim>\<open>interface{}\<close> parameters and results in this
  program: arguments of store commands, the record handed to the write functions, and
  the replies of the store client.  \<open>IChan\<close> stands for a value of a type the JSON
  encoder rejects (a channel).\<close>

datatype iface =
    INil
  | IString string
  | IBytes string
  | IInt "64 word"
  | IInt64 "64 word"
  | IPtr "addr option"
  | IStudent Student
  | ISlice "iface list"
  | IChan

datatype error =
    DialError string
  | RedisError string
  | ErrNil
  | UnsupportedTypeError
  | SyntaxError
  | UnmarshalTypeError
  | OtherError string


section \<open>The world outside the functions\<close>

text \<open>
  The state a call runs in: the Go heap, the state \<open>'x\<close> of whatever is behind the
  connection, and the lines printed so far.
\<close>

record 'x world =
  mem :: memory
  store :: 'x
  stdout :: "string list"

text \<open>\<^verbatim>\<open>redis.Conn\<close>: the one method used is \<^verbatim>\<open>Do(commandName, args...)\<close>, which
  returns a reply or an error.\<close>

type_synonym 'x conn = "string \<Rightarrow> iface list \<Rightarrow> 'x world \<Rightarrow> (error + iface) \<times> 'x world"

text \<open>
  The library functions main.go calls.  They are not part of the repository, so the
  functions of main.go take them as a parameter:
  \<^item> \<^verbatim>\<open>redis.Dial(network, address)\<close>
  \<^item> \<^verbatim>\<open>redis.Args{...}.AddFlat(value)\<close>
  \<^item> \<^verbatim>\<open>redis.StringMap(reply, err)\<close>
  \<^item> \<^verbatim>\<open>rejson.JSONSet(conn, key, path, obj, NX, XX)\<close> and \<^verbatim>\<open>rejson.JSONGet(conn, key, path)\<close>
    (the signatures are given in the README)
  \<^item> \<^verbatim>\<open>json.Marshal(v)\<close> and \<^verbatim>\<open>json.Unmarshal(data, v)\<close>, the latter for a target
    of type \<^verbatim>\<open>*Student\<close> whose current contents are passed in
  \<^item> the renderings of the verbs \<^verbatim>\<open>%v\<close> and \<^verbatim>\<open>%T\<close> of \<^verbatim>\<open>fmt.Printf\<close>.
\<close>

record 'x lib =
  redis_Dial :: "string \<Rightarrow> string \<Rightarrow> 'x world \<Rightarrow> (error + 'x conn) \<times> 'x world"
  Args_AddFlat :: "memory \<Rightarrow> iface list \<Rightarrow> iface \<Rightarrow> iface list"
  redis_StringMap :: "error + iface \<Rightarrow> error + (string \<rightharpoonup> string)"
  rejson_JSONSet :: "'x conn \<Rightarrow> string \<Rightarrow> string \<Rightarrow> iface \<Rightarrow> bool \<Rightarrow> bool \<Rightarrow> 'x world
                      \<Rightarrow> (error + iface) \<times> 'x world"
  rejson_JSONGet :: "'x conn \<Rightarrow> string \<Rightarrow> string \<Rightarrow> 'x world \<Rightarrow> (error + iface) \<times> 'x world"
  json_Marshal :: "memory \<Rightarrow> iface \<Rightarrow> error + string"
  json_Unmarshal :: "string \<Rightarrow> Student \<Rightarrow> memory \<Rightarrow> error + (Student \<times> memory)"
  fmt_v :: "memory \<Rightarrow> iface \<Rightarrow> string"
  fmt_T :: "iface \<Rightarrow> string"


section \<open>The persistence functions (main.go, lines 145-188)\<close>

text \<open>A Go result \<^verbatim>\<open>err error\<close> is \<open>None\<close> for \<^verbatim>\<open>nil\<close>; a result pair
  \<^verbatim>\<open>(value interface{}, err error)\<close> is a sum.\<close>

definition addStructHash ::
  "'x lib \<Rightarrow> 'x conn \<Rightarrow> string \<Rightarrow> iface \<Rightarrow> 'x world \<Rightarrow> error option \<times> 'x world" where
  "addStructHash L conn key value w =
     (case conn ''HMSET'' (Args_AddFlat L (mem w) [IString key] value) w of
        (Inl err, w') \<Rightarrow> (Some err, w')
      | (Inr _, w') \<Rightarrow> (None, w'))"

definition getStructHash ::
  "'x conn \<Rightarrow> string \<Rightarrow> 'x world \<Rightarrow> (error + iface) \<times> 'x world" where
  "getStructHash conn key w = conn ''HGETALL'' [IString ''JohnDoeHash''] w"

definition addStructReJSON ::
  "'x lib \<Rightarrow> 'x conn \<Rightarrow> string \<Rightarrow> iface \<Rightarrow> 'x world \<Rightarrow> error option \<times> 'x world" where
  "addStructReJSON L conn key value w =
     (case rejson_JSONSet L conn key ''.'' value False False w of
        (Inl err, w') \<Rightarrow> (Some err, w')
      | (Inr _, w') \<Rightarrow> (None, w'))"

definition getStructReJSON ::
  "'x lib \<Rightarrow> 'x conn \<Rightarrow> string \<Rightarrow> 'x world \<Rightarrow> (error + iface) \<times> 'x world" where
  "getStructReJSON L conn key w = rejson_JSONGet L conn key '''' w"

definition addStructHashWithJSON ::
  "'x lib \<Rightarrow> 'x conn \<Rightarrow> string \<Rightarrow> iface \<Rightarrow> 'x world \<Rightarrow> error option \<times> 'x world" where
  "addStructHashWithJSON L conn key value w =
     (case json_Marshal L (mem w) value of
        Inl err \<Rightarrow> (Some err, w)
      | Inr b \<Rightarrow>
          (case conn ''HSET'' [IString key, IString ''JSON'', IString b] w of
             (Inl err, w') \<Rightarrow> (Some err, w')
           | (Inr _, w') \<Rightarrow> (None, w')))"

definition getStructHashWithJSON ::
  "'x conn \<Rightarrow> string \<Rightarrow> 'x world \<Rightarrow> (error + iface) \<times> 'x world" where
  "getStructHashWithJSON conn key w = conn ''HGET'' [IString key, IString ''JSON''] w"


section \<open>The program (main.go, lines 37-143)\<close>

text \<open>
  \<^verbatim>\<open>main\<close> ends by returning, by \<^verbatim>\<open>log.Fatalf\<close> (the message format is kept), or by
  the panic of a failed type assertion \<^verbatim>\<open>x.([]byte)\<close>.  The address of the server comes
  from the command line.
\<close>

datatype outcome = Returned | Fatal string | Panic

definition newline :: string where
  "newline = [CHR 0x0A]"

definition printf_info :: "'x lib \<Rightarrow> string \<Rightarrow> iface \<Rightarrow> 'x world \<Rightarrow> 'x world" where
  "printf_info L tag x w =
     w\<lparr>stdout := stdout w @
          [tag @ '' Student Info '' @ fmt_v L (mem w) x @ '' [Type '' @ fmt_T L x @ '']'' @ newline]\<rparr>"

text \<open>Lines 116-134: the JSON-in-hash strategy.\<close>

definition main_hash_json :: "'x lib \<Rightarrow> 'x conn \<Rightarrow> iface \<Rightarrow> 'x world \<Rightarrow> outcome \<times> 'x world" where
  "main_hash_json L conn student w3 =
     (case addStructHashWithJSON L conn ''JohnDoeHashJSON'' student w3 of
        (Some err, w4) \<Rightarrow> (Fatal ''Failed to addStructHashWithJSON - %s'', w4)
      | (None, w4) \<Rightarrow>
     (case getStructHashWithJSON conn ''JohnDoeHashJSON'' w4 of
        (Inl err, w5) \<Rightarrow> (Fatal ''Failed to getStructHashWithJSON - %s'', w5)
      | (Inr outHashJSON, w5) \<Rightarrow>
     (case outHashJSON of
        IBytes b \<Rightarrow>
          (case json_Unmarshal L b \<lparr>Info = None, Rank = 0\<rparr> (mem w5) of
             Inl err \<Rightarrow> (Fatal ''Failed to JSON Unmarshal - %s'', w5)
           | Inr (outHashJSONStudent, m) \<Rightarrow>
               (Returned,
                printf_info L ''[HSET JSON]'' (IPtr (Info outHashJSONStudent)) (w5\<lparr>mem := m\<rparr>)))
      | _ \<Rightarrow> (Panic, w5))))"

text \<open>Lines 90-102: reading the native JSON document back.\<close>

definition main_rejson :: "'x lib \<Rightarrow> 'x conn \<Rightarrow> iface \<Rightarrow> 'x world \<Rightarrow> outcome \<times> 'x world" where
  "main_rejson L conn student w2 =
     (case getStructReJSON L conn ''JohnDoeJSON'' w2 of
        (Inl err, w3) \<Rightarrow> (Fatal ''Failed to getStructReJSON - %s'', w3)
      | (Inr outJSON, w3) \<Rightarrow>
     (case outJSON of
        IBytes b \<Rightarrow>
          (case json_Unmarshal L b \<lparr>Info = None, Rank = 0\<rparr> (mem w3) of
             Inl err \<Rightarrow> (Fatal ''Failed to JSON Unmarshal - %s'', w3)
           | Inr (outStudent, m) \<Rightarrow>
               main_hash_json L conn student
                 (printf_info L ''[ReJSON]'' (IPtr (Info outStudent)) (w3\<lparr>mem := m\<rparr>)))
      | _ \<Rightarrow> (Panic, w3)))"

definition main :: "'x lib \<Rightarrow> string \<Rightarrow> 'x world \<Rightarrow> outcome \<times> 'x world" where
  "main L addr w =
     (case redis_Dial L ''tcp'' addr w of
        (Inl err, w0) \<Rightarrow> (Fatal ''Failed to connect to redis-server @ %s'', w0)
      | (Inr conn, w0) \<Rightarrow>
     (case alloc \<lparr>FirstName = ''John'', LastName = ''Doe'', Major = ''CSE''\<rparr> (mem w0) of
        (a, m) \<Rightarrow>
     (let student = IStudent \<lparr>Info = Some a, Rank = 1\<rparr> in
     (case addStructHash L conn ''JohnDoeHash'' student (w0\<lparr>mem := m\<rparr>) of
        (Some err, w1) \<Rightarrow> (Fatal ''Failed to addStructHash - %s'', w1)
      | (None, w1) \<Rightarrow>
     (case addStructReJSON L conn ''JohnDoeJSON'' student w1 of
        (Some err, w2) \<Rightarrow> (Fatal ''Failed to addStructReJSON - %s'', w2)
      | (None, w2) \<Rightarrow>
     (case getStructHash conn ''JohnDoeHash'' w2 of
        (r, w3) \<Rightarrow>
     (case redis_StringMap L r of
        Inl err \<Rightarrow> (Fatal ''Failed to getStructHash - %s'', w3)
      | Inr outStudentMap \<Rightarrow>
          main_rejson L conn student
            (printf_info L ''[HASH]''
               (IString (case outStudentMap ''Info'' of None \<Rightarrow> '''' | Some s \<Rightarrow> s)) w3))))))))"


section \<open>Recording the calls that cross the library boundary\<close>

text \<open>
  To speak about which store commands a function issues, the connection and the two
  \<^verbatim>\<open>rejson\<close> functions are wrapped so that every call is appended to a log kept beside
  the state behind the connection.  The wrapped callee runs on the state without the
  log, so it can neither read nor change it.
\<close>

datatype call =
    CallDo string "iface list"
  | CallJSONSet string string iface bool bool
  | CallJSONGet string string

definition lower :: "(call list \<times> 'x) world \<Rightarrow> 'x world" where
  "lower w = \<lparr>mem = mem w, store = snd (store w), stdout = stdout w\<rparr>"

definition raise :: "call list \<Rightarrow> 'x world \<Rightarrow> (call list \<times> 'x) world" where
  "raise l w = \<lparr>mem = mem w, store = (l, store w), stdout = stdout w\<rparr>"

definition calls :: "(call list \<times> 'x) world \<Rightarrow> call list" where
  "calls w = fst (store w)"

definition rec_conn :: "'x conn \<Rightarrow> (call list \<times> 'x) conn" where
  "rec_conn conn cmd args w =
     (case conn cmd args (lower w) of
        (r, w') \<Rightarrow> (r, raise (calls w @ [CallDo cmd args]) w'))"

text \<open>A recorded connection run without its log is the connection it records.  The
  recorded \<^verbatim>\<open>rejson\<close> functions run the underlying ones on it, so a \<^verbatim>\<open>rejson\<close> call
  is one entry of the log.\<close>

definition unrec :: "(call list \<times> 'x) conn \<Rightarrow> 'x conn" where
  "unrec conn cmd args w = (case conn cmd args (raise [] w) of (r, w') \<Rightarrow> (r, lower w'))"

definition rec_JSONSet ::
  "'x lib \<Rightarrow> (call list \<times> 'x) conn \<Rightarrow> string \<Rightarrow> string \<Rightarrow> iface \<Rightarrow> bool \<Rightarrow> bool
     \<Rightarrow> (call list \<times> 'x) world \<Rightarrow> (error + iface) \<times> (call list \<times> 'x) world" where
  "rec_JSONSet L conn key path obj nx xx w =
     (case rejson_JSONSet L (unrec conn) key path obj nx xx (lower w) of
        (r, w') \<Rightarrow> (r, raise (calls w @ [CallJSONSet key path obj nx xx]) w'))"

definition rec_JSONGet ::
  "'x lib \<Rightarrow> (call list \<times> 'x) conn \<Rightarrow> string \<Rightarrow> string
     \<Rightarrow> (call list \<times> 'x) world \<Rightarrow> (error + iface) \<times> (call list \<times> 'x) world" where
  "rec_JSONGet L conn key path w =
     (case rejson_JSONGet L (unrec conn) key path (lower w) of
        (r, w') \<Rightarrow> (r, raise (calls w @ [CallJSONGet key path]) w'))"

definition rec_Dial ::
  "'x lib \<Rightarrow> string \<Rightarrow> string \<Rightarrow> (call list \<times> 'x) world
     \<Rightarrow> (error + (call list \<times> 'x) conn) \<times> (call list \<times> 'x) world" where
  "rec_Dial L network address w =
     (case redis_Dial L network address (lower w) of
        (Inl e, w') \<Rightarrow> (Inl e, raise (calls w) w')
      | (Inr c, w') \<Rightarrow> (Inr (rec_conn c), raise (calls w) w'))"

definition rec_lib :: "'x lib \<Rightarrow> (call list \<times> 'x) lib" where
  "rec_lib L =
     \<lparr>redis_Dial = rec_Dial L,
      Args_AddFlat = Args_AddFlat L,
      redis_StringMap = redis_StringMap L,
      rejson_JSONSet = rec_JSONSet L,
      rejson_JSONGet = rec_JSONGet L,
      json_Marshal = json_Marshal L,
      json_Unmarshal = json_Unmarshal L,
      fmt_v = fmt_v L,
      fmt_T = fmt_T L\<rparr>"

text \<open>The store commands among the recorded calls, and the condition flags of the
  recorded native-JSON writes.\<close>

fun is_Do :: "call \<Rightarrow> bool" where
  "is_Do (CallDo cmd args) = True"
| "is_Do _ = False"

fun flags_clear :: "call \<Rightarrow> bool" where
  "flags_clear (CallJSONSet key path obj nx xx) = (\<not> nx \<and> \<not> xx)"
| "flags_clear _ = True"


text \<open>No recorded native-JSON write carries a condition flag.\<close>

definition clear :: "(call list \<times> 'x) world \<Rightarrow> bool" where
  "clear w = list_all flags_clear (calls w)"


section \<open>The libraries and the store\<close>

text \<open>
  Nothing in this section is code of the repository.  \<^verbatim>\<open>strconv\<close>, \<^verbatim>\<open>unicode/utf8\<close>,
  \<^verbatim>\<open>encoding/json\<close> and \<^verbatim>\<open>fmt\<close> belong to Go's standard library and are modelled
  after their documented behaviour on the types of this program.  The store client, the
  \<^verbatim>\<open>rejson\<close> helper and the store behind the connection are modelled from the spec
  (sections 4.1 and 6) and the README.  Together they give one instance \<open>go_lib\<close> of the
  library parameter, on which \<^verbatim>\<open>main\<close> prints the three lines that the comments of
  main.go record (lines 83, 104 and 136).
\<close>

subsection \<open>Decimal integers (strconv)\<close>

fun digits10 :: "nat \<Rightarrow> string" where
  "digits10 n = (if n < 10 then [char_of (48 + n)]
                 else digits10 (n div 10) @ [char_of (48 + n mod 10)])"

declare digits10.simps [simp del]

definition itoa :: "int \<Rightarrow> string" where
  "itoa i = (if i < 0 then CHR ''-'' # digits10 (nat (- i)) else digits10 (nat i))"

definition is_digit :: "char \<Rightarrow> bool" where
  "is_digit c = (48 \<le> (of_char c :: nat) \<and> (of_char c :: nat) \<le> 57)"

fun parse_digits :: "nat \<Rightarrow> string \<Rightarrow> nat option" where
  "parse_digits acc [] = Some acc"
| "parse_digits acc (c # cs) =
     (if is_digit c then parse_digits (acc * 10 + (of_char c - 48)) cs else None)"

definition ParseInt :: "string \<Rightarrow> 64 word option" where
  "ParseInt s =
     (case s of
        [] \<Rightarrow> None
      | c # cs \<Rightarrow>
          (let neg = (c = CHR ''-'');
               ds = (if c = CHR ''-'' \<or> c = CHR ''+'' then cs else s)
           in if ds = [] then None
              else (case parse_digits 0 ds of
                      None \<Rightarrow> None
                    | Some n \<Rightarrow>
                        (let v = (if neg then - int n else int n)
                         in if - (2 ^ 63) \<le> v \<and> v < 2 ^ 63 then Some (word_of_int v) else None))))"

subsection \<open>UTF-8 (unicode/utf8)\<close>

definition RuneError :: nat where
  "RuneError = 0xFFFD"

definition is_cont :: "char \<Rightarrow> bool" where
  "is_cont c = (0x80 \<le> (of_char c :: nat) \<and> (of_char c :: nat) \<le> 0xBF)"

definition in_range :: "nat \<Rightarrow> nat \<Rightarrow> char \<Rightarrow> bool" where
  "in_range lo hi c = (lo \<le> (of_char c :: nat) \<and> (of_char c :: nat) \<le> hi)"

definition DecodeRune :: "string \<Rightarrow> nat \<times> nat" where
  "DecodeRune p =
     (case p of
        [] \<Rightarrow> (RuneError, 0)
      | b0 # r0 \<Rightarrow>
          (let x = (of_char b0 :: nat) in
           if x < 0x80 then (x, 1)
           else if x < 0xC2 then (RuneError, 1)
           else if x < 0xE0 then
             (case r0 of
                b1 # r1 \<Rightarrow>
                  if is_cont b1 then ((x mod 32) * 64 + of_char b1 mod 64, 2)
                  else (RuneError, 1)
              | _ \<Rightarrow> (RuneError, 1))
           else if x < 0xF0 then
             (case r0 of
                b1 # b2 # r2 \<Rightarrow>
                  if in_range (if x = 0xE0 then 0xA0 else 0x80) (if x = 0xED then 0x9F else 0xBF) b1
                     \<and> is_cont b2
                  then ((x mod 16) * 4096 + (of_char b1 mod 64) * 64 + of_char b2 mod 64, 3)
                  else (RuneError, 1)
              | _ \<Rightarrow> (RuneError, 1))
           else if x < 0xF5 then
             (case r0 of
                b1 # b2 # b3 # r3 \<Rightarrow>
                  if in_range (if x = 0xF0 then 0x90 else 0x80) (if x = 0xF4 then 0x8F else 0xBF) b1
                     \<and> is_cont b2 \<and> is_cont b3
                  then ((x mod 8) * 262144 + (of_char b1 mod 64) * 4096
                          + (of_char b2 mod 64) * 64 + of_char b3 mod 64, 4)
                  else (RuneError, 1)
              | _ \<Rightarrow> (RuneError, 1))
           else (RuneError, 1)))"

definition EncodeRune :: "nat \<Rightarrow> string" where
  "EncodeRune r =
     (if r \<le> 0x7F then [char_of r]
      else if r \<le> 0x7FF then [char_of (0xC0 + r div 64), char_of (0x80 + r mod 64)]
      else if r > 0x10FFFF \<or> (0xD800 \<le> r \<and> r \<le> 0xDFFF) then [CHR 0xEF, CHR 0xBF, CHR 0xBD]
      else if r \<le> 0xFFFF then
        [char_of (0xE0 + r div 4096), char_of (0x80 + (r div 64) mod 64), char_of (0x80 + r mod 64)]
      else
        [char_of (0xF0 + r div 262144), char_of (0x80 + (r div 4096) mod 64),
         char_of (0x80 + (r div 64) mod 64), char_of (0x80 + r mod 64)])"

fun ValidString :: "string \<Rightarrow> bool" where
  "ValidString [] = True"
| "ValidString (b # bs) =
     (case DecodeRune (b # bs) of
        (c, n) \<Rightarrow> \<not> (c = RuneError \<and> n = 1) \<and> ValidString (drop (n - 1) bs))"

subsection \<open>encoding/json: strings\<close>

definition hexdigit :: "nat \<Rightarrow> char" where
  "hexdigit n = (if n < 10 then char_of (48 + n) else char_of (87 + n))"

definition htmlSafe :: "char \<Rightarrow> bool" where
  "htmlSafe b = (0x20 \<le> (of_char b :: nat) \<and> (of_char b :: nat) < 0x80
                 \<and> b \<noteq> CHR 0x22 \<and> b \<noteq> CHR 0x5C
                 \<and> b \<noteq> CHR ''<'' \<and> b \<noteq> CHR ''>'' \<and> b \<noteq> CHR ''&'')"

definition escape_byte :: "char \<Rightarrow> string" where
  "escape_byte b =
     CHR 0x5C #
     (if b = CHR 0x5C \<or> b = CHR 0x22 then [b]
      else if b = CHR 0x0A then ''n''
      else if b = CHR 0x0D then ''r''
      else if b = CHR 0x09 then ''t''
      else ''u00'' @ [hexdigit (of_char b div 16), hexdigit (of_char b mod 16)])"

fun quote_body :: "string \<Rightarrow> string" where
  "quote_body [] = []"
| "quote_body (b # bs) =
     (if (of_char b :: nat) < 0x80 then
        (if htmlSafe b then [b] else escape_byte b) @ quote_body bs
      else
        (case DecodeRune (b # bs) of
           (c, n) \<Rightarrow>
             if c = RuneError \<and> n = 1 then (CHR 0x5C # ''ufffd'') @ quote_body bs
             else if c = 0x2028 \<or> c = 0x2029 then
               (CHR 0x5C # ''u202'' @ [hexdigit (c mod 16)]) @ quote_body (drop (n - 1) bs)
             else take n (b # bs) @ quote_body (drop (n - 1) bs)))"

definition quote :: "string \<Rightarrow> string" where
  "quote s = CHR 0x22 # quote_body s @ [CHR 0x22]"

datatype json =
    JNull
  | JBool bool
  | JNumber string
  | JString string
  | JArray "json list"
  | JObject "(string \<times> json) list"

definition is_space :: "char \<Rightarrow> bool" where
  "is_space c = (c = CHR '' '' \<or> c = CHR 0x09 \<or> c = CHR 0x0D \<or> c = CHR 0x0A)"

fun skip_ws :: "string \<Rightarrow> string" where
  "skip_ws [] = []"
| "skip_ws (c # cs) = (if is_space c then skip_ws cs else c # cs)"

definition hexval :: "char \<Rightarrow> nat option" where
  "hexval c =
     (let x = (of_char c :: nat) in
      if 48 \<le> x \<and> x \<le> 57 then Some (x - 48)
      else if 97 \<le> x \<and> x \<le> 102 then Some (x - 87)
      else if 65 \<le> x \<and> x \<le> 70 then Some (x - 55)
      else None)"

definition getu4 :: "string \<Rightarrow> nat option" where
  "getu4 s =
     (case s of
        a # b # c # d # _ \<Rightarrow>
          (case (hexval a, hexval b, hexval c, hexval d) of
             (Some h1, Some h2, Some h3, Some h4) \<Rightarrow> Some (((h1 * 16 + h2) * 16 + h3) * 16 + h4)
           | _ \<Rightarrow> None)
      | _ \<Rightarrow> None)"

definition unescape :: "char \<Rightarrow> char option" where
  "unescape e =
     (if e = CHR 0x22 \<or> e = CHR 0x5C \<or> e = CHR ''/'' then Some e
      else if e = CHR ''b'' then Some (CHR 0x08)
      else if e = CHR ''f'' then Some (CHR 0x0C)
      else if e = CHR ''n'' then Some (CHR 0x0A)
      else if e = CHR ''r'' then Some (CHR 0x0D)
      else if e = CHR ''t'' then Some (CHR 0x09)
      else None)"

definition is_surrogate :: "nat \<Rightarrow> bool" where
  "is_surrogate r = (0xD800 \<le> r \<and> r < 0xE000)"

definition low_surrogate :: "nat \<Rightarrow> string \<Rightarrow> nat option" where
  "low_surrogate r1 s =
     (case s of
        a # b # t \<Rightarrow>
          if a = CHR 0x5C \<and> b = CHR ''u'' then
            (case getu4 t of
               None \<Rightarrow> None
             | Some r2 \<Rightarrow>
                 if r1 < 0xDC00 \<and> 0xDC00 \<le> r2 \<and> r2 < 0xE000
                 then Some ((r1 - 0xD800) * 1024 + (r2 - 0xDC00) + 0x10000) else None)
          else None
      | _ \<Rightarrow> None)"

definition prepend :: "string \<Rightarrow> (string \<times> string) option \<Rightarrow> (string \<times> string) option" where
  "prepend p r = (case r of None \<Rightarrow> None | Some (s, rest) \<Rightarrow> Some (p @ s, rest))"

fun unquote_body :: "string \<Rightarrow> (string \<times> string) option" where
  "unquote_body [] = None"
| "unquote_body (c # cs) =
     (if c = CHR 0x22 then Some ([], cs)
      else if c = CHR 0x5C then
        (case cs of
           [] \<Rightarrow> None
         | e # t \<Rightarrow>
             if e = CHR ''u'' then
               (case getu4 t of
                  None \<Rightarrow> None
                | Some r1 \<Rightarrow>
                    if is_surrogate r1 then
                      (case low_surrogate r1 (drop 4 t) of
                         Some r \<Rightarrow> prepend (EncodeRune r) (unquote_body (drop 6 (drop 4 t)))
                       | None \<Rightarrow> prepend (EncodeRune RuneError) (unquote_body (drop 4 t)))
                    else prepend (EncodeRune r1) (unquote_body (drop 4 t)))
             else
               (case unescape e of
                  None \<Rightarrow> None
                | Some x \<Rightarrow> prepend [x] (unquote_body t)))
      else if (of_char c :: nat) < 0x20 then None
      else if (of_char c :: nat) < 0x80 then prepend [c] (unquote_body cs)
      else
        (case DecodeRune (c # cs) of
           (r, n) \<Rightarrow> prepend (EncodeRune r) (unquote_body (drop (n - 1) cs))))"

definition digits_then :: "string \<Rightarrow> (string \<times> string) option" where
  "digits_then s =
     (if takeWhile is_digit s = [] then None
      else Some (takeWhile is_digit s, dropWhile is_digit s))"

definition scan_int_part :: "string \<Rightarrow> (string \<times> string) option" where
  "scan_int_part s =
     (case s of
        [] \<Rightarrow> None
      | c # cs \<Rightarrow> if c = CHR ''0'' then Some (''0'', cs) else digits_then s)"

definition scan_frac :: "string \<Rightarrow> (string \<times> string) option" where
  "scan_frac s =
     (case s of
        c # cs \<Rightarrow>
          if c = CHR ''.'' then
            (case digits_then cs of None \<Rightarrow> None | Some (ds, r) \<Rightarrow> Some (c # ds, r))
          else Some ([], s)
      | [] \<Rightarrow> Some ([], s))"

definition scan_exp :: "string \<Rightarrow> (string \<times> string) option" where
  "scan_exp s =
     (case s of
        c # cs \<Rightarrow>
          if c = CHR ''e'' \<or> c = CHR ''E'' then
            (case cs of
               d # ds \<Rightarrow>
                 if d = CHR ''+'' \<or> d = CHR ''-'' then
                   (case digits_then ds of None \<Rightarrow> None | Some (x, r) \<Rightarrow> Some (c # d # x, r))
                 else (case digits_then cs of None \<Rightarrow> None | Some (x, r) \<Rightarrow> Some (c # x, r))
             | [] \<Rightarrow> None)
          else Some ([], s)
      | [] \<Rightarrow> Some ([], s))"

definition scan_number :: "string \<Rightarrow> (string \<times> string) option" where
  "scan_number s =
     (let neg = (case s of c # _ \<Rightarrow> c = CHR ''-'' | [] \<Rightarrow> False);
          s0 = (if neg then tl s else s)
      in case scan_int_part s0 of
           None \<Rightarrow> None
         | Some (ip, r1) \<Rightarrow>
             (case scan_frac r1 of
                None \<Rightarrow> None
              | Some (fp, r2) \<Rightarrow>
                  (case scan_exp r2 of
                     None \<Rightarrow> None
                   | Some (ep, r3) \<Rightarrow> Some ((if neg then ''-'' else []) @ ip @ fp @ ep, r3))))"

fun parse_value :: "nat \<Rightarrow> string \<Rightarrow> (json \<times> string) option"
and parse_members :: "nat \<Rightarrow> string \<Rightarrow> ((string \<times> json) list \<times> string) option"
and parse_elements :: "nat \<Rightarrow> string \<Rightarrow> (json list \<times> string) option"
where
  "parse_value 0 s = None"
| "parse_value (Suc k) s =
     (case skip_ws s of
        [] \<Rightarrow> None
      | c # cs \<Rightarrow>
          if c = CHR ''{'' then
            (case skip_ws cs of
               [] \<Rightarrow> None
             | d # ds \<Rightarrow>
                 if d = CHR ''}'' then Some (JObject [], ds)
                 else (case parse_members k cs of
                         None \<Rightarrow> None
                       | Some (ms, r) \<Rightarrow> Some (JObject ms, r)))
          else if c = CHR ''['' then
            (case skip_ws cs of
               [] \<Rightarrow> None
             | d # ds \<Rightarrow>
                 if d = CHR '']'' then Some (JArray [], ds)
                 else (case parse_elements k cs of
                         None \<Rightarrow> None
                       | Some (xs, r) \<Rightarrow> Some (JArray xs, r)))
          else if c = CHR 0x22 then
            (case unquote_body cs of
               None \<Rightarrow> None
             | Some (str, r) \<Rightarrow> Some (JString str, r))
          else if c = CHR ''t'' then
            (if take 3 cs = ''rue'' then Some (JBool True, drop 3 cs) else None)
          else if c = CHR ''f'' then
            (if take 4 cs = ''alse'' then Some (JBool False, drop 4 cs) else None)
          else if c = CHR ''n'' then
            (if take 3 cs = ''ull'' then Some (JNull, drop 3 cs) else None)
          else
            (case scan_number (c # cs) of
               None \<Rightarrow> None
             | Some (lit, r) \<Rightarrow> Some (JNumber lit, r)))"
| "parse_members 0 s = None"
| "parse_members (Suc k) s =
     (case skip_ws s of
        [] \<Rightarrow> None
      | c # cs \<Rightarrow>
          if c \<noteq> CHR 0x22 then None
          else
            (case unquote_body cs of
               None \<Rightarrow> None
             | Some (key, r1) \<Rightarrow>
                 (case skip_ws r1 of
                    [] \<Rightarrow> None
                  | c2 # r2 \<Rightarrow>
                      if c2 \<noteq> CHR '':'' then None
                      else
                        (case parse_value k r2 of
                           None \<Rightarrow> None
                         | Some (v, r3) \<Rightarrow>
                             (case skip_ws r3 of
                                [] \<Rightarrow> None
                              | c3 # r4 \<Rightarrow>
                                  if c3 = CHR '','' then
                                    (case parse_members k r4 of
                                       None \<Rightarrow> None
                                     | Some (ms, r5) \<Rightarrow> Some ((key, v) # ms, r5))
                                  else if c3 = CHR ''}'' then Some ([(key, v)], r4)
                                  else None)))))"
| "parse_elements 0 s = None"
| "parse_elements (Suc k) s =
     (case parse_value k s of
        None \<Rightarrow> None
      | Some (v, r1) \<Rightarrow>
          (case skip_ws r1 of
             [] \<Rightarrow> None
           | c # r2 \<Rightarrow>
               if c = CHR '','' then
                 (case parse_elements k r2 of
                    None \<Rightarrow> None
                  | Some (xs, r3) \<Rightarrow> Some (v # xs, r3))
               else if c = CHR '']'' then Some ([v], r2)
               else None))"

definition parse_json :: "string \<Rightarrow> json option" where
  "parse_json s =
     (case parse_value (Suc (length s)) s of
        None \<Rightarrow> None
      | Some (v, r) \<Rightarrow> if skip_ws r = [] then Some v else None)"

subsection \<open>json.Marshal\<close>

definition b64 :: "nat \<Rightarrow> char" where
  "b64 n = (if n < 26 then char_of (65 + n)
            else if n < 52 then char_of (71 + n)
            else if n < 62 then char_of (n - 4)
            else if n = 62 then CHR ''+'' else CHR ''/'')"

fun base64 :: "string \<Rightarrow> string" where
  "base64 [] = []"
| "base64 [a] =
     (let x = (of_char a :: nat) in [b64 (x div 4), b64 ((x mod 4) * 16), CHR ''='', CHR ''=''])"
| "base64 [a, b] =
     (let x = (of_char a :: nat); y = (of_char b :: nat) in
      [b64 (x div 4), b64 ((x mod 4) * 16 + y div 16), b64 ((y mod 16) * 4), CHR ''=''])"
| "base64 (a # b # c # rest) =
     (let x = (of_char a :: nat); y = (of_char b :: nat); z = (of_char c :: nat) in
      [b64 (x div 4), b64 ((x mod 4) * 16 + y div 16), b64 ((y mod 16) * 4 + z div 64),
       b64 (z mod 64)] @ base64 rest)"

definition marshal_StudentDetails :: "StudentDetails \<Rightarrow> string" where
  "marshal_StudentDetails d =
     ''{'' @ quote ''FirstName'' @ '':'' @ quote (FirstName d) @ '','' @
             quote ''LastName'' @ '':'' @ quote (LastName d) @ '','' @
             quote ''Major'' @ '':'' @ quote (Major d) @ ''}''"

fun join :: "string \<Rightarrow> string list \<Rightarrow> string" where
  "join sep [] = []"
| "join sep [x] = x"
| "join sep (x # y # ys) = x @ sep @ join sep (y # ys)"

definition marshal_Student :: "memory \<Rightarrow> Student \<Rightarrow> string" where
  "marshal_Student m s =
     ''{'' @ join '',''
       ((case Info s of
           None \<Rightarrow> []
         | Some a \<Rightarrow> [quote ''info'' @ '':'' @
                       (case deref m (Some a) of
                          Some d \<Rightarrow> marshal_StudentDetails d
                        | None \<Rightarrow> ''null'')]) @
        (if Rank s = 0 then [] else [quote ''rank'' @ '':'' @ itoa (sint (Rank s))]))
     @ ''}''"

fun collect :: "(error + string) list \<Rightarrow> error + string list" where
  "collect [] = Inr []"
| "collect (Inl e # rs) = Inl e"
| "collect (Inr x # rs) = (case collect rs of Inl e \<Rightarrow> Inl e | Inr xs \<Rightarrow> Inr (x # xs))"

fun Marshal :: "memory \<Rightarrow> iface \<Rightarrow> error + string" where
  "Marshal m INil = Inr ''null''"
| "Marshal m (IString s) = Inr (quote s)"
| "Marshal m (IBytes b) = Inr (quote (base64 b))"
| "Marshal m (IInt i) = Inr (itoa (sint i))"
| "Marshal m (IInt64 i) = Inr (itoa (sint i))"
| "Marshal m (IPtr p) =
     Inr (case deref m p of None \<Rightarrow> ''null'' | Some d \<Rightarrow> marshal_StudentDetails d)"
| "Marshal m (IStudent s) = Inr (marshal_Student m s)"
| "Marshal m (ISlice xs) =
     (case collect (map (Marshal m) xs) of
        Inl e \<Rightarrow> Inl e
      | Inr ys \<Rightarrow> Inr (''['' @ join '','' ys @ '']''))"
| "Marshal m IChan = Inl UnsupportedTypeError"

subsection \<open>json.Unmarshal into a Student\<close>

definition caseMask :: "char \<Rightarrow> nat" where
  "caseMask c = (let x = (of_char c :: nat) in if (x div 32) mod 2 = 1 then x - 32 else x)"

fun equalFold :: "string \<Rightarrow> string \<Rightarrow> bool" where
  "equalFold [] t = (t = [])"
| "equalFold (sb # s) t =
     (case t of
        [] \<Rightarrow> False
      | tb # t' \<Rightarrow>
          if (of_char tb :: nat) < 0x80 then
            (if sb = tb then equalFold s t'
             else if 65 \<le> caseMask sb \<and> caseMask sb \<le> 90 \<and> caseMask sb = caseMask tb
                  then equalFold s t'
             else False)
          else
            (case DecodeRune t of
               (tr, n) \<Rightarrow>
                 if (caseMask sb = 83 \<and> tr = 0x17F) \<or> (caseMask sb = 75 \<and> tr = 0x212A)
                 then equalFold s (drop n t) else False))"

definition fieldByName :: "string list \<Rightarrow> string \<Rightarrow> string option" where
  "fieldByName names key =
     (case find (\<lambda>n. n = key) names of
        Some n \<Rightarrow> Some n
      | None \<Rightarrow> find (\<lambda>n. equalFold n key) names)"

definition set_details_field :: "string \<Rightarrow> string \<Rightarrow> StudentDetails \<Rightarrow> StudentDetails" where
  "set_details_field f v d =
     (if f = ''FirstName'' then d\<lparr>FirstName := v\<rparr>
      else if f = ''LastName'' then d\<lparr>LastName := v\<rparr>
      else d\<lparr>Major := v\<rparr>)"

fun decode_StudentDetails :: "(string \<times> json) list \<Rightarrow> StudentDetails \<Rightarrow> error + StudentDetails" where
  "decode_StudentDetails [] d = Inr d"
| "decode_StudentDetails ((k, v) # ms) d =
     (case fieldByName [''FirstName'', ''LastName'', ''Major''] k of
        None \<Rightarrow> decode_StudentDetails ms d
      | Some f \<Rightarrow>
          (case v of
             JNull \<Rightarrow> decode_StudentDetails ms d
           | JString x \<Rightarrow> decode_StudentDetails ms (set_details_field f x d)
           | _ \<Rightarrow> Inl UnmarshalTypeError))"

fun decode_Student :: "(string \<times> json) list \<Rightarrow> Student \<Rightarrow> memory \<Rightarrow> error + (Student \<times> memory)" where
  "decode_Student [] s m = Inr (s, m)"
| "decode_Student ((k, v) # ms) s m =
     (case fieldByName [''info'', ''rank''] k of
        None \<Rightarrow> decode_Student ms s m
      | Some f \<Rightarrow>
          if f = ''info'' then
            (case v of
               JNull \<Rightarrow> decode_Student ms (s\<lparr>Info := None\<rparr>) m
             | JObject ds \<Rightarrow>
                 (case (case Info s of
                          Some a \<Rightarrow> (a, m)
                        | None \<Rightarrow> alloc \<lparr>FirstName = [], LastName = [], Major = []\<rparr> m) of
                    (a, m1) \<Rightarrow>
                      (case decode_StudentDetails ds (m1 ! a) of
                         Inl e \<Rightarrow> Inl e
                       | Inr d \<Rightarrow> decode_Student ms (s\<lparr>Info := Some a\<rparr>) (m1[a := d])))
             | _ \<Rightarrow> Inl UnmarshalTypeError)
          else
            (case v of
               JNull \<Rightarrow> decode_Student ms s m
             | JNumber lit \<Rightarrow>
                 (case ParseInt lit of
                    None \<Rightarrow> Inl UnmarshalTypeError
                  | Some i \<Rightarrow> decode_Student ms (s\<lparr>Rank := i\<rparr>) m)
             | _ \<Rightarrow> Inl UnmarshalTypeError))"

definition Unmarshal :: "string \<Rightarrow> Student \<Rightarrow> memory \<Rightarrow> error + (Student \<times> memory)" where
  "Unmarshal data s m =
     (case parse_json data of
        None \<Rightarrow> Inl SyntaxError
      | Some JNull \<Rightarrow> Inr (s, m)
      | Some (JObject ms) \<Rightarrow> decode_Student ms s m
      | Some _ \<Rightarrow> Inl UnmarshalTypeError)"

subsection \<open>fmt\<close>

definition fmt_StudentDetails :: "StudentDetails \<Rightarrow> string" where
  "fmt_StudentDetails d = ''{'' @ FirstName d @ '' '' @ LastName d @ '' '' @ Major d @ ''}''"

fun hex :: "nat \<Rightarrow> string" where
  "hex n = (if n < 16 then [hexdigit n] else hex (n div 16) @ [hexdigit (n mod 16)])"

declare hex.simps [simp del]

fun Sprint :: "bool \<Rightarrow> memory \<Rightarrow> iface \<Rightarrow> string" where
  "Sprint outer m INil = ''<nil>''"
| "Sprint outer m (IString s) = s"
| "Sprint outer m (IBytes b) = ''['' @ join '' '' (map (\<lambda>c. itoa (of_char c)) b) @ '']''"
| "Sprint outer m (IInt i) = itoa (sint i)"
| "Sprint outer m (IInt64 i) = itoa (sint i)"
| "Sprint outer m (IPtr p) =
     (case p of
        None \<Rightarrow> ''<nil>''
      | Some a \<Rightarrow>
          if outer then (case deref m p of None \<Rightarrow> ''<nil>'' | Some d \<Rightarrow> ''&'' @ fmt_StudentDetails d)
          else ''0x'' @ hex a)"
| "Sprint outer m (IStudent s) =
     ''{'' @ (case Info s of None \<Rightarrow> ''<nil>'' | Some a \<Rightarrow> ''0x'' @ hex a) @ '' '' @
       itoa (sint (Rank s)) @ ''}''"
| "Sprint outer m (ISlice xs) = ''['' @ join '' '' (map (Sprint False m) xs) @ '']''"
| "Sprint outer m IChan = ''<nil>''"

fun Sprint_T :: "iface \<Rightarrow> string" where
  "Sprint_T INil = ''<nil>''"
| "Sprint_T (IString s) = ''string''"
| "Sprint_T (IBytes b) = ''[]uint8''"
| "Sprint_T (IInt i) = ''int''"
| "Sprint_T (IInt64 i) = ''int64''"
| "Sprint_T (IPtr p) = ''*main.StudentDetails''"
| "Sprint_T (IStudent s) = ''main.Student''"
| "Sprint_T (ISlice xs) = ''[]interface {}''"
| "Sprint_T IChan = ''chan int''"

subsection \<open>redigo\<close>

fun writeArg :: "memory \<Rightarrow> iface \<Rightarrow> string" where
  "writeArg m (IString s) = s"
| "writeArg m (IBytes b) = b"
| "writeArg m (IInt i) = itoa (sint i)"
| "writeArg m (IInt64 i) = itoa (sint i)"
| "writeArg m INil = []"
| "writeArg m x = Sprint True m x"

fun AddFlat :: "memory \<Rightarrow> iface list \<Rightarrow> iface \<Rightarrow> iface list" where
  "AddFlat m args (IStudent s) =
     args @ [IString ''Info'', IPtr (Info s), IString ''Rank'', IInt (Rank s)]"
| "AddFlat m args (IPtr p) =
     (case deref m p of
        None \<Rightarrow> args
      | Some d \<Rightarrow> args @ [IString ''FirstName'', IString (FirstName d),
                           IString ''LastName'', IString (LastName d),
                           IString ''Major'', IString (Major d)])"
| "AddFlat m args (ISlice xs) = args @ xs"
| "AddFlat m args (IBytes b) = args @ map (\<lambda>c. IInt (of_char c)) b"
| "AddFlat m args x = args @ [x]"

fun string_pairs :: "iface list \<Rightarrow> (string \<times> string) list option" where
  "string_pairs [] = Some []"
| "string_pairs (IBytes k # IBytes v # r) =
     (case string_pairs r of None \<Rightarrow> None | Some ps \<Rightarrow> Some ((k, v) # ps))"
| "string_pairs _ = None"

definition StringMap :: "error + iface \<Rightarrow> error + (string \<rightharpoonup> string)" where
  "StringMap r =
     (case r of
        Inl e \<Rightarrow> Inl e
      | Inr (ISlice values) \<Rightarrow>
          if odd (length values)
          then Inl (OtherError ''redigo: StringMap expects even number of values result'')
          else (case string_pairs values of
                  None \<Rightarrow> Inl (OtherError ''redigo: StringMap key not a bulk string value'')
                | Some ps \<Rightarrow> Inr (map_of (rev ps)))
      | Inr INil \<Rightarrow> Inl ErrNil
      | Inr _ \<Rightarrow> Inl (OtherError ''redigo: unexpected type for Values''))"

subsection \<open>The store\<close>

datatype entry = Hash "(string \<times> string) list" | Doc json

record server =
  reachable :: bool
  db :: "string \<rightharpoonup> entry"

fun hset :: "string \<Rightarrow> string \<Rightarrow> (string \<times> string) list \<Rightarrow> (string \<times> string) list" where
  "hset f v [] = [(f, v)]"
| "hset f v ((g, u) # h) = (if g = f then (f, v) # h else (g, u) # hset f v h)"

fun hset_all :: "(string \<times> string) list \<Rightarrow> (string \<times> string) list \<Rightarrow> (string \<times> string) list" where
  "hset_all [] h = h"
| "hset_all ((f, v) # ps) h = hset_all ps (hset f v h)"

fun pairs :: "string list \<Rightarrow> (string \<times> string) list option" where
  "pairs [] = Some []"
| "pairs [x] = None"
| "pairs (f # v # r) = (case pairs r of None \<Rightarrow> None | Some ps \<Rightarrow> Some ((f, v) # ps))"

definition put :: "string \<Rightarrow> entry \<Rightarrow> server world \<Rightarrow> server world" where
  "put key e w = w\<lparr>store := (store w)\<lparr>db := (db (store w))(key \<mapsto> e)\<rparr>\<rparr>"

definition wrongtype :: error where
  "wrongtype = RedisError ''WRONGTYPE Operation against a key holding the wrong kind of value''"

definition wrongargs :: error where
  "wrongargs = RedisError ''ERR wrong number of arguments''"

definition hash_write :: "bool \<Rightarrow> string list \<Rightarrow> server world \<Rightarrow> (error + iface) \<times> server world" where
  "hash_write multi xs w =
     (case xs of
        [] \<Rightarrow> (Inl wrongargs, w)
      | key # rest \<Rightarrow>
          (case pairs rest of
             None \<Rightarrow> (Inl wrongargs, w)
           | Some ps \<Rightarrow>
               if ps = [] then (Inl wrongargs, w)
               else
                 (case db (store w) key of
                    Some (Doc j) \<Rightarrow> (Inl wrongtype, w)
                  | other \<Rightarrow>
                      (let h = (case other of Some (Hash h0) \<Rightarrow> h0 | _ \<Rightarrow> []);
                           h' = hset_all ps h
                       in (Inr (if multi then IString ''OK''
                                else IInt64 (of_nat (length h' - length h))),
                           put key (Hash h') w)))))"

definition hash_getall :: "string list \<Rightarrow> server world \<Rightarrow> (error + iface) \<times> server world" where
  "hash_getall xs w =
     (case xs of
        [key] \<Rightarrow>
          (case db (store w) key of
             None \<Rightarrow> (Inr (ISlice []), w)
           | Some (Hash h) \<Rightarrow> (Inr (ISlice (concat (map (\<lambda>(f, v). [IBytes f, IBytes v]) h))), w)
           | Some (Doc j) \<Rightarrow> (Inl wrongtype, w))
      | _ \<Rightarrow> (Inl wrongargs, w))"

definition hash_get :: "string list \<Rightarrow> server world \<Rightarrow> (error + iface) \<times> server world" where
  "hash_get xs w =
     (case xs of
        [key, f] \<Rightarrow>
          (case db (store w) key of
             None \<Rightarrow> (Inr INil, w)
           | Some (Hash h) \<Rightarrow>
               (case map_of h f of None \<Rightarrow> (Inr INil, w) | Some v \<Rightarrow> (Inr (IBytes v), w))
           | Some (Doc j) \<Rightarrow> (Inl wrongtype, w))
      | _ \<Rightarrow> (Inl wrongargs, w))"

definition store_escape :: "char \<Rightarrow> string" where
  "store_escape c =
     (if c = CHR 0x22 \<or> c = CHR 0x5C then [CHR 0x5C, c]
      else if (of_char c :: nat) < 0x20 then
        CHR 0x5C # ''u00'' @ [hexdigit (of_char c div 16), hexdigit (of_char c mod 16)]
      else [c])"

definition store_quote :: "string \<Rightarrow> string" where
  "store_quote s = CHR 0x22 # concat (map store_escape s) @ [CHR 0x22]"

fun serialize :: "json \<Rightarrow> string" where
  "serialize JNull = ''null''"
| "serialize (JBool b) = (if b then ''true'' else ''false'')"
| "serialize (JNumber lit) = lit"
| "serialize (JString s) = store_quote s"
| "serialize (JArray xs) = ''['' @ join '','' (map serialize xs) @ '']''"
| "serialize (JObject ms) =
     ''{'' @ join '','' (map (\<lambda>(k, v). store_quote k @ '':'' @ serialize v) ms) @ ''}''"

fun split_path :: "string \<Rightarrow> string \<Rightarrow> string list" where
  "split_path acc [] = (if acc = [] then [] else [acc])"
| "split_path acc (c # cs) =
     (if c = CHR ''.'' then (if acc = [] then split_path [] cs else acc # split_path [] cs)
      else split_path (acc @ [c]) cs)"

fun get_path :: "string list \<Rightarrow> json \<Rightarrow> json option" where
  "get_path [] j = Some j"
| "get_path (k # ks) (JObject ms) =
     (case map_of ms k of None \<Rightarrow> None | Some v \<Rightarrow> get_path ks v)"
| "get_path (k # ks) _ = None"

fun set_member :: "string \<Rightarrow> json \<Rightarrow> (string \<times> json) list \<Rightarrow> (string \<times> json) list" where
  "set_member k v [] = [(k, v)]"
| "set_member k v ((k', v') # ms) =
     (if k' = k then (k, v) # ms else (k', v') # set_member k v ms)"

fun set_path :: "string list \<Rightarrow> json \<Rightarrow> json \<Rightarrow> json option" where
  "set_path [] new j = Some new"
| "set_path [k] new (JObject ms) = Some (JObject (set_member k new ms))"
| "set_path (k # ks) new (JObject ms) =
     (case map_of ms k of
        None \<Rightarrow> None
      | Some v \<Rightarrow> (case set_path ks new v of
                     None \<Rightarrow> None
                   | Some v' \<Rightarrow> Some (JObject (set_member k v' ms))))"
| "set_path (k # ks) new _ = None"

definition json_set :: "string list \<Rightarrow> server world \<Rightarrow> (error + iface) \<times> server world" where
  "json_set xs w =
     (case xs of
        key # path # text # opts \<Rightarrow>
          if opts \<noteq> [] \<and> opts \<noteq> [''NX''] \<and> opts \<noteq> [''XX'']
          then (Inl (RedisError ''ERR syntax error''), w)
          else
            (case parse_json text of
               None \<Rightarrow> (Inl (RedisError ''ERR invalid JSON''), w)
             | Some new \<Rightarrow>
                 (case db (store w) key of
                    Some (Hash h) \<Rightarrow> (Inl wrongtype, w)
                  | None \<Rightarrow>
                      if opts = [''XX''] then (Inl (RedisError ''ERR key does not exist''), w)
                      else if split_path [] path \<noteq> []
                      then (Inl (RedisError ''ERR new objects must be created at the root''), w)
                      else (Inr (IString ''OK''), put key (Doc new) w)
                  | Some (Doc old) \<Rightarrow>
                      if opts = [''NX''] \<and> get_path (split_path [] path) old \<noteq> None
                      then (Inl (RedisError ''ERR key already exists''), w)
                      else if opts = [''XX''] \<and> get_path (split_path [] path) old = None
                      then (Inl (RedisError ''ERR key does not exist''), w)
                      else
                        (case set_path (split_path [] path) new old of
                           None \<Rightarrow> (Inl (RedisError ''ERR path does not exist''), w)
                         | Some j \<Rightarrow> (Inr (IString ''OK''), put key (Doc j) w))))
      | _ \<Rightarrow> (Inl wrongargs, w))"

definition json_get :: "string list \<Rightarrow> server world \<Rightarrow> (error + iface) \<times> server world" where
  "json_get xs w =
     (case xs of
        [] \<Rightarrow> (Inl wrongargs, w)
      | key # rest \<Rightarrow>
          if length rest > 1 then (Inl wrongargs, w)
          else
            (case db (store w) key of
               None \<Rightarrow> (Inr INil, w)
             | Some (Hash h) \<Rightarrow> (Inl wrongtype, w)
             | Some (Doc j) \<Rightarrow>
                 (case get_path (split_path [] (concat rest)) j of
                    None \<Rightarrow> (Inl (RedisError ''ERR path does not exist''), w)
                  | Some v \<Rightarrow> (Inr (IBytes (serialize v)), w))))"

definition store_Do :: "server conn" where
  "store_Do cmd args w =
     (if \<not> reachable (store w) then (Inl (OtherError ''connection refused''), w)
      else
        (let xs = map (writeArg (mem w)) args in
         if cmd = ''HMSET'' then hash_write True xs w
         else if cmd = ''HSET'' then hash_write False xs w
         else if cmd = ''HGETALL'' then hash_getall xs w
         else if cmd = ''HGET'' then hash_get xs w
         else if cmd = ''JSON.SET'' then json_set xs w
         else if cmd = ''JSON.GET'' then json_get xs w
         else (Inl (RedisError ''ERR unknown command''), w)))"

definition Dial :: "string \<Rightarrow> string \<Rightarrow> server world \<Rightarrow> (error + server conn) \<times> server world" where
  "Dial network address w =
     (if reachable (store w) then (Inr store_Do, w) else (Inl (DialError address), w))"

definition JSONSet ::
  "'x conn \<Rightarrow> string \<Rightarrow> string \<Rightarrow> iface \<Rightarrow> bool \<Rightarrow> bool \<Rightarrow> 'x world \<Rightarrow> (error + iface) \<times> 'x world" where
  "JSONSet conn key path obj nx xx w =
     (case Marshal (mem w) obj of
        Inl e \<Rightarrow> (Inl e, w)
      | Inr b \<Rightarrow>
          conn ''JSON.SET''
            ([IString key, IString path, IBytes b]
               @ (if nx then [IString ''NX''] else []) @ (if xx then [IString ''XX''] else [])) w)"

definition JSONGet :: "'x conn \<Rightarrow> string \<Rightarrow> string \<Rightarrow> 'x world \<Rightarrow> (error + iface) \<times> 'x world" where
  "JSONGet conn key path w = conn ''JSON.GET'' [IString key, IString path] w"

definition go_lib :: "server lib" where
  "go_lib =
     \<lparr>redis_Dial = Dial,
      Args_AddFlat = AddFlat,
      redis_StringMap = StringMap,
      rejson_JSONSet = JSONSet,
      rejson_JSONGet = JSONGet,
      json_Marshal = Marshal,
      json_Unmarshal = Unmarshal,
      fmt_v = Sprint True,
      fmt_T = Sprint_T\<rparr>"

definition fresh :: "server world" where
  "fresh = \<lparr>mem = [], store = \<lparr>reachable = True, db = Map.empty\<rparr>, stdout = []\<rparr>"



text \<open>The record of \<^verbatim>\<open>main\<close> (lines 46-53) lives in a heap whose one cell is \<open>john\<close>.\<close>

definition john :: StudentDetails where
  "john = \<lparr>FirstName = ''John'', LastName = ''Doe'', Major = ''CSE''\<rparr>"


section \<open>Properties of the recording wrappers\<close>

lemma lower_raise [simp]: "lower (raise l w) = w"
  by (simp add: lower_def raise_def)

lemma calls_raise [simp]: "calls (raise l w) = l"
  by (simp add: calls_def raise_def)

lemma mem_raise [simp]: "mem (raise l w) = mem w"
  by (simp add: raise_def)

lemma mem_lower [simp]: "mem (lower w) = mem w"
  by (simp add: lower_def)

lemma unrec_rec_conn [simp]: "unrec (rec_conn c) = c"
  by (intro ext) (simp add: unrec_def rec_conn_def split: prod.splits)

lemma rec_lib_simps [simp]:
  "Args_AddFlat (rec_lib L) = Args_AddFlat L"
  "json_Marshal (rec_lib L) = json_Marshal L"
  "json_Unmarshal (rec_lib L) = json_Unmarshal L"
  "redis_StringMap (rec_lib L) = redis_StringMap L"
  "rejson_JSONSet (rec_lib L) = rec_JSONSet L"
  "rejson_JSONGet (rec_lib L) = rec_JSONGet L"
  "redis_Dial (rec_lib L) = rec_Dial L"
  "fmt_v (rec_lib L) = fmt_v L"
  "fmt_T (rec_lib L) = fmt_T L"
  by (simp_all add: rec_lib_def)

lemma calls_printf_info [simp]: "calls (printf_info L t x w) = calls w"
  by (simp add: printf_info_def calls_def)

lemma calls_mem_update [simp]: "calls (w\<lparr>mem := m\<rparr>) = calls w"
  by (simp add: calls_def)

lemma calls_rec_conn: "calls (snd (rec_conn c cmd args w)) = calls w @ [CallDo cmd args]"
  by (simp add: rec_conn_def split: prod.splits)

lemma calls_addStructReJSON:
  "calls (snd (addStructReJSON (rec_lib L) conn key value w))
     = calls w @ [CallJSONSet key ''.'' value False False]"
  by (simp add: addStructReJSON_def rec_JSONSet_def split: prod.splits sum.splits)

lemma clear_printf_info [simp]: "clear (printf_info L t x w) = clear w"
  by (simp add: clear_def)

lemma clear_mem_update [simp]: "clear (w\<lparr>mem := m\<rparr>) = clear w"
  by (simp add: clear_def)

lemma clear_rec_conn [simp]: "clear (snd (rec_conn c cmd args w)) = clear w"
  by (simp add: clear_def calls_rec_conn)

lemma clear_addStructHash [simp]:
  "clear (snd (addStructHash L (rec_conn c) key value w)) = clear w"
  by (simp add: addStructHash_def case_prod_beta split: sum.splits)

lemma clear_getStructHash [simp]:
  "clear (snd (getStructHash (rec_conn c) key w)) = clear w"
  by (simp add: getStructHash_def)

lemma clear_addStructReJSON [simp]:
  "clear (snd (addStructReJSON (rec_lib L) conn key value w)) = clear w"
  by (simp add: clear_def calls_addStructReJSON)

lemma clear_getStructReJSON [simp]:
  "clear (snd (getStructReJSON (rec_lib L) conn key w)) = clear w"
  by (simp add: getStructReJSON_def rec_JSONGet_def clear_def case_prod_beta)

lemma clear_addStructHashWithJSON [simp]:
  "clear (snd (addStructHashWithJSON L (rec_conn c) key value w)) = clear w"
  by (simp add: addStructHashWithJSON_def case_prod_beta split: sum.splits)

lemma clear_getStructHashWithJSON [simp]:
  "clear (snd (getStructHashWithJSON (rec_conn c) key w)) = clear w"
  by (simp add: getStructHashWithJSON_def)

lemma clear_main_hash_json [simp]:
  "clear (snd (main_hash_json (rec_lib L) (rec_conn c) student w)) = clear w"
  by (simp add: main_hash_json_def case_prod_beta
           split: option.splits sum.splits iface.splits)

lemma clear_main_rejson [simp]:
  "clear (snd (main_rejson (rec_lib L) (rec_conn c) student w)) = clear w"
  by (simp add: main_rejson_def case_prod_beta
           split: option.splits sum.splits iface.splits)

lemma clear_rec_Dial [simp]: "clear (snd (rec_Dial L n a w)) = clear w"
  by (simp add: rec_Dial_def clear_def case_prod_beta split: sum.splits)

lemma rec_Dial_conn:
  "fst (rec_Dial L n a w) = Inr conn \<Longrightarrow> \<exists>c. conn = rec_conn c"
  by (auto simp: rec_Dial_def case_prod_beta split: sum.splits)

lemma clear_main: "clear (snd (main (rec_lib L) addr w)) = clear w"
  by (auto simp: main_def Let_def case_prod_beta
           split: option.splits sum.splits dest!: rec_Dial_conn)

section \<open>The store leaves the Go heap alone\<close>

lemma mem_put [simp]: "mem (put key e w) = mem w"
  by (simp add: put_def)

lemma mem_hash_write [simp]: "mem (snd (hash_write multi xs w)) = mem w"
  by (simp add: hash_write_def Let_def split: list.splits option.splits entry.splits)

lemma mem_hash_getall [simp]: "mem (snd (hash_getall xs w)) = mem w"
  by (simp add: hash_getall_def split: list.splits option.splits entry.splits)

lemma mem_hash_get [simp]: "mem (snd (hash_get xs w)) = mem w"
  by (simp add: hash_get_def split: list.splits option.splits entry.splits)

lemma mem_json_set [simp]: "mem (snd (json_set xs w)) = mem w"
  by (simp add: json_set_def split: list.splits option.splits entry.splits)

lemma mem_json_get [simp]: "mem (snd (json_get xs w)) = mem w"
  by (simp add: json_get_def split: list.splits option.splits entry.splits)

lemma mem_store_Do: "mem (snd (store_Do cmd args w)) = mem w"
  by (simp add: store_Do_def Let_def)

lemma mem_JSONSet:
  "\<forall>cmd args w. mem (snd (conn cmd args w)) = mem w \<Longrightarrow>
   mem (snd (JSONSet conn k p v nx xx w)) = mem w"
  by (simp add: JSONSet_def split: sum.splits)


section \<open>The claims\<close>

text \<open>
  C2.  The claim: for every key, the flattened read issues its "get all fields" command
  against the hash stored at that key.  The code does not: whatever key it is given,
  and whatever connection it runs on, the one command \<^verbatim>\<open>getStructHash\<close> issues is
  \<^verbatim>\<open>HGETALL JohnDoeHash\<close> (main.go, line 155, names the constant where the sibling
  functions pass \<^verbatim>\<open>key\<close>).
\<close>

theorem getStructHash_ignores_key:
  "calls (snd (getStructHash (rec_conn c) key w))
     = calls w @ [CallDo ''HGETALL'' [IString ''JohnDoeHash'']]"
  by (simp add: getStructHash_def rec_conn_def split: prod.splits)

text \<open>
  C4.  If the JSON encoding of the value fails, \<^verbatim>\<open>addStructHashWithJSON\<close> returns that error
  and the world is unchanged: the state behind the connection is the same, and the log of
  recorded calls has no new entry, so no store command was issued.
\<close>

theorem encoding_error_no_store_call:
  assumes "json_Marshal L (mem w) value = Inl e"
  shows "addStructHashWithJSON (rec_lib L) (rec_conn c) key value w = (Some e, w)"
  using assms by (simp add: addStructHashWithJSON_def)

theorem encoding_error_no_store_call_witness:
  "json_Marshal go_lib (mem (raise [] fresh)) IChan = Inl UnsupportedTypeError
   \<and> addStructHashWithJSON (rec_lib go_lib) (rec_conn store_Do) ''JohnDoeHashJSON'' IChan
        (raise [] fresh) = (Some UnsupportedTypeError, raise [] fresh)"
proof -
  have h: "json_Marshal go_lib (mem (raise [] fresh)) IChan = Inl UnsupportedTypeError"
    by (simp add: go_lib_def)
  show ?thesis
    using h encoding_error_no_store_call [OF h] by simp
qed

text \<open>
  C7.  \<^verbatim>\<open>addStructReJSON\<close> makes one library call, the native-JSON write at the root path
  with both condition flags false; and in a whole run of \<^verbatim>\<open>main\<close>, with any library and
  any server behind it, no recorded native-JSON write carries a flag.
\<close>

theorem native_write_is_unconditional:
  "calls (snd (addStructReJSON (rec_lib L) (rec_conn c) key value w))
     = calls w @ [CallJSONSet key ''.'' value False False]
   \<and> clear (snd (main (rec_lib L) addr (raise [] w0)))"
  by (simp add: calls_addStructReJSON clear_main) (simp add: clear_def)

theorem native_write_is_unconditional_witness:
  "calls (snd (addStructReJSON (rec_lib go_lib) (rec_conn store_Do) ''JohnDoeJSON''
                 (IStudent \<lparr>Info = Some 0, Rank = 1\<rparr>) (raise [] (fresh\<lparr>mem := [john]\<rparr>))))
     = [CallJSONSet ''JohnDoeJSON'' ''.'' (IStudent \<lparr>Info = Some 0, Rank = 1\<rparr>) False False]
   \<and> clear (snd (main (rec_lib go_lib) ''localhost:6379'' (raise [] fresh)))"
  using native_write_is_unconditional [of go_lib store_Do "''JohnDoeJSON''"
      "IStudent \<lparr>Info = Some 0, Rank = 1\<rparr>" "raise [] (fresh\<lparr>mem := [john]\<rparr>)"
      "''localhost:6379''" fresh]
  by simp

text \<open>
  C9.  The write functions leave the Go heap as it was, whether they succeed or fail,
  provided the two library entry points that receive the record (the connection's
  \<^verbatim>\<open>Do\<close> and \<^verbatim>\<open>rejson.JSONSet\<close>) do: the functions themselves write nothing through the
  record's pointer.  The record itself is passed by value.  The witness discharges the
  provisos for the modelled store and helper.
\<close>

theorem write_functions_leave_memory:
  assumes "\<forall>cmd args w. mem (snd (conn cmd args w)) = mem w"
      and "\<forall>k p v nx xx w. mem (snd (rejson_JSONSet L conn k p v nx xx w)) = mem w"
  shows "mem (snd (addStructHash L conn key value w)) = mem w
       \<and> mem (snd (addStructReJSON L conn key value w)) = mem w
       \<and> mem (snd (addStructHashWithJSON L conn key value w)) = mem w"
  using assms
  by (simp add: addStructHash_def addStructReJSON_def addStructHashWithJSON_def
        case_prod_beta split: sum.splits)

theorem write_functions_leave_memory_witness:
  "(\<forall>cmd args w. mem (snd (store_Do cmd args w)) = mem w)
   \<and> (\<forall>k p v nx xx w. mem (snd (rejson_JSONSet go_lib store_Do k p v nx xx w)) = mem w)
   \<and> mem (snd (addStructHash go_lib store_Do ''JohnDoeHash''
                  (IStudent \<lparr>Info = Some 0, Rank = 1\<rparr>) (fresh\<lparr>mem := [john]\<rparr>))) = [john]
   \<and> mem (snd (addStructReJSON go_lib store_Do ''JohnDoeHash''
                  (IStudent \<lparr>Info = Some 0, Rank = 1\<rparr>) (fresh\<lparr>mem := [john]\<rparr>))) = [john]
   \<and> mem (snd (addStructHashWithJSON go_lib store_Do ''JohnDoeHash''
                  (IStudent \<lparr>Info = Some 0, Rank = 1\<rparr>) (fresh\<lparr>mem := [john]\<rparr>))) = [john]"
proof -
  have c: "\<forall>cmd args w. mem (snd (store_Do cmd args w)) = mem w"
    by (simp add: mem_store_Do)
  have j: "\<forall>k p v nx xx w. mem (snd (rejson_JSONSet go_lib store_Do k p v nx xx w)) = mem w"
    using mem_JSONSet [OF c] by (simp add: go_lib_def)
  show ?thesis
    using c j write_functions_leave_memory [OF c j, of "''JohnDoeHash''"
        "IStudent \<lparr>Info = Some 0, Rank = 1\<rparr>" "fresh\<lparr>mem := [john]\<rparr>"]
    by simp
qed

end
